theory Spec2Isabelle
  imports Complex_Main "HOL-Library.AList"
begin

section \<open>JavaScript values used by the service\<close>

text \<open>
  A JavaScript number is a finite value or \<open>NaN\<close>. Every finite double is a rational, and
  the comparisons and the arithmetic the service performs on identifiers agree with the
  rational ones. The infinities and the negative zero do not occur on any path of the
  service and are left out.
\<close>

datatype jsnum = Fin rat | NaN

fun js_lt :: "jsnum \<Rightarrow> jsnum \<Rightarrow> bool" where
  "js_lt (Fin a) (Fin b) = (a < b)"
| "js_lt _ _ = False"

fun js_mul :: "jsnum \<Rightarrow> jsnum \<Rightarrow> jsnum" where
  "js_mul (Fin a) (Fin b) = Fin (a * b)"
| "js_mul _ _ = NaN"

fun js_add :: "jsnum \<Rightarrow> jsnum \<Rightarrow> jsnum" where
  "js_add (Fin a) (Fin b) = Fin (a + b)"
| "js_add _ _ = NaN"

fun js_floor :: "jsnum \<Rightarrow> jsnum" where
  "js_floor (Fin a) = Fin (of_int \<lfloor>a\<rfloor>)"
| "js_floor NaN = NaN"

text \<open>An operand that may be \<open>undefined\<close> (\<open>None\<close>); arithmetic converts it to \<open>NaN\<close>.\<close>

fun ToNumber :: "jsnum option \<Rightarrow> jsnum" where
  "ToNumber None = NaN"
| "ToNumber (Some n) = n"

text \<open>
  Number to text, as a template literal does it. Integers print in decimal; a fraction
  prints its whole part, a point and its decimal digits (at most twenty). That is what
  JavaScript prints for integers below \<open>10^21\<close> and for short decimal fractions; beyond
  that JavaScript changes to the shortest round-trip digits and to exponent notation,
  which no statement below depends on.
\<close>

definition digit_char :: "nat \<Rightarrow> char" where
  "digit_char d = ''0123456789'' ! (d mod 10)"

fun show_nat :: "nat \<Rightarrow> string" where
  "show_nat n = (if n < 10 then [digit_char n] else show_nat (n div 10) @ [digit_char (n mod 10)])"

declare show_nat.simps [simp del]

definition show_int :: "int \<Rightarrow> string" where
  "show_int i = (if i < 0 then ''-'' @ show_nat (nat (- i)) else show_nat (nat i))"

fun frac_digits :: "nat \<Rightarrow> rat \<Rightarrow> string" where
  "frac_digits 0 r = []"
| "frac_digits (Suc n) r =
     (if r = 0 then []
      else digit_char (nat \<lfloor>r * 10\<rfloor>) # frac_digits n (r * 10 - of_int \<lfloor>r * 10\<rfloor>))"

fun ToString :: "jsnum \<Rightarrow> string" where
  "ToString NaN = ''NaN''"
| "ToString (Fin r) =
     (if r < 0 then ''-'' else '''') @ show_nat (nat \<lfloor>\<bar>r\<bar>\<rfloor>) @
     (if \<bar>r\<bar> = of_int \<lfloor>\<bar>r\<bar>\<rfloor> then '''' else ''.'' @ frac_digits 20 (\<bar>r\<bar> - of_int \<lfloor>\<bar>r\<bar>\<rfloor>))"

text \<open>The values an error object's optional properties hold, and their truthiness.\<close>

datatype jsval = Undefined | Null | Boolean bool | Number jsnum | String string

fun truthy :: "jsval \<Rightarrow> bool" where
  "truthy Undefined = False"
| "truthy Null = False"
| "truthy (Boolean b) = b"
| "truthy (Number n) = (n \<noteq> NaN \<and> n \<noteq> Fin 0)"
| "truthy (String s) = (s \<noteq> [])"

section \<open>Failures\<close>

text \<open>
  A thrown object: the discriminator \<open>name\<close>, the \<open>message\<close>, and the optional properties
  the error handler reads (\<open>err.timestamp\<close> is the field \<open>timestamp_e\<close>).
\<close>

record js_error =
  name :: string
  message :: string
  details :: jsval
  isOperational :: jsval
  statusCode :: jsval
  timestamp_e :: jsval

text \<open>\<open>new Error(msg)\<close> and the errors the runtime itself throws: only name and message are set.\<close>

definition Error :: "string \<Rightarrow> js_error" where
  "Error msg = \<lparr>name = ''Error'', message = msg, details = Undefined,
     isOperational = Undefined, statusCode = Undefined, timestamp_e = Undefined\<rparr>"

definition ReferenceError :: "string \<Rightarrow> js_error" where
  "ReferenceError msg = \<lparr>name = ''ReferenceError'', message = msg, details = Undefined,
     isOperational = Undefined, statusCode = Undefined, timestamp_e = Undefined\<rparr>"

definition TypeError :: "string \<Rightarrow> js_error" where
  "TypeError msg = \<lparr>name = ''TypeError'', message = msg, details = Undefined,
     isOperational = Undefined, statusCode = Undefined, timestamp_e = Undefined\<rparr>"

section \<open>The error handler (middleware/errorHandler.js)\<close>

text \<open>What \<open>res.status(code).json(obj)\<close> sends: the status and the object's properties in order.\<close>

record http_reply =
  code :: jsval
  json :: "(string \<times> jsval) list"

definition errorHandler :: "js_error \<Rightarrow> http_reply" where
  "errorHandler err =
     (if name err = ''ValidationError'' then
        \<lparr>code = Number (Fin 400),
         json = [(''error'', String ''Validation Error''),
                 (''message'', String (message err)),
                 (''details'', details err)]\<rparr>
      else if name err = ''ComicNotFound'' then
        \<lparr>code = Number (Fin 404),
         json = [(''error'', String ''Comic not found''),
                 (''message'', String ''The requested comic does not exist'')]\<rparr>
      else if name err = ''InvalidComicID'' then
        \<lparr>code = Number (Fin 400),
         json = [(''error'', String ''Invalid comic ID''),
                 (''message'', String ''Comic ID must be a positive integer'')]\<rparr>
      else if truthy (isOperational err) then
        \<lparr>code = statusCode err,
         json = [(''error'', String (message err)),
                 (''timestamp'', timestamp_e err)]\<rparr>
      else
        \<lparr>code = Number (Fin 500),
         json = [(''error'', String ''Internal Server Error''),
                 (''message'', String ''Error handler not implemented'')]\<rparr>)"

section \<open>Comics, the cache and the network\<close>

text \<open>The provider's payload; \<open>transcript\<close> may be missing.\<close>

record raw_comic =
  num :: int
  raw_title :: string
  raw_img :: string
  raw_alt :: string
  raw_transcript :: "string option"
  raw_year :: string
  raw_month :: string
  raw_day :: string
  raw_safe_title :: string

record comic =
  comic_id :: int
  title :: string
  img :: string
  alt :: string
  transcript :: string
  year :: string
  month :: string
  day :: string
  safe_title :: string

text \<open>\<open>comic.transcript || ''\<close>: a missing transcript and an empty one both give the empty text.\<close>

definition processComic :: "raw_comic \<Rightarrow> comic" where
  "processComic c =
     \<lparr>comic_id = num c, title = raw_title c, img = raw_img c, alt = raw_alt c,
      transcript = (case raw_transcript c of None \<Rightarrow> '''' | Some t \<Rightarrow> t),
      year = raw_year c, month = raw_month c, day = raw_day c,
      safe_title = raw_safe_title c\<rparr>"

record cache_entry =
  data :: comic
  timestamp :: int

text \<open>
  The service object: the \<open>Map\<close> as an association list in insertion order
  (\<open>Map.get\<close> is \<open>map_of\<close>; \<open>Map.set\<close> is \<open>AList.update\<close>, which replaces the value of a
  present key in place and appends a new key), and the URLs requested so far, kept to
  count the network calls.
\<close>

record service =
  cache :: "(string \<times> cache_entry) list"
  requests :: "string list"

definition baseUrl :: string where
  "baseUrl = ''https://xkcd.com''"

definition cacheTimeout :: int where
  "cacheTimeout = 5 * 60 * 1000"

text \<open>
  A response of \<open>fetch\<close>: the status, the status text, and what decoding the body gives:
  a failure (\<open>response.json()\<close> rejects, or the decoded value has no fields to read) or the
  payload. \<open>fetch\<close> itself either rejects or resolves; the network is a function from the
  URL to that outcome.
\<close>

record response =
  status :: int
  statusText :: string
  json_body :: "js_error + raw_comic"

definition ok :: "response \<Rightarrow> bool" where
  "ok r = (200 \<le> status r \<and> status r \<le> 299)"

datatype fetch_outcome = Rejected js_error | Resolved response

type_synonym network = "string \<Rightarrow> fetch_outcome"

definition http_error_message :: "response \<Rightarrow> string" where
  "http_error_message r = ''HTTP '' @ show_int (status r) @ '': '' @ statusText r"

section \<open>The service (class XKCDService)\<close>

subsection \<open>getLatest\<close>

text \<open>
  \<open>getLatest net t0 t1 s\<close>: \<open>t0\<close> is \<open>Date.now()\<close> at the freshness test, \<open>t1\<close> is
  \<open>Date.now()\<close> when the entry is stored. Every failure inside the \<open>try\<close> block (a rejected
  \<open>fetch\<close>, a response that is not ok, a body that does not decode) is caught and thrown
  again as a new \<open>Error\<close>.
\<close>

definition latestUrl :: string where
  "latestUrl = baseUrl @ ''/info.0.json''"

definition fresh :: "int \<Rightarrow> cache_entry option \<Rightarrow> bool" where
  "fresh t0 cached =
     (case cached of None \<Rightarrow> False | Some c \<Rightarrow> t0 - timestamp c < cacheTimeout)"

definition getLatest :: "network \<Rightarrow> int \<Rightarrow> int \<Rightarrow> service \<Rightarrow> (js_error + comic) \<times> service" where
  "getLatest net t0 t1 s =
     (let cacheKey = ''latest''; cached = map_of (cache s) cacheKey in
      case (if fresh t0 cached then cached else None) of
        Some c \<Rightarrow> (Inr (data c), s)
      | None \<Rightarrow>
         (let s' = s\<lparr>requests := requests s @ [latestUrl]\<rparr>;
              failed = (\<lambda>msg. (Inl (Error (''Failed to fetch latest comic: '' @ msg)), s'))
          in case net latestUrl of
               Rejected e \<Rightarrow> failed (message e)
             | Resolved r \<Rightarrow>
                 if \<not> ok r then failed (http_error_message r)
                 else (case json_body r of
                         Inl e \<Rightarrow> failed (message e)
                       | Inr c \<Rightarrow>
                           (let processedComic = processComic c in
                            (Inr processedComic,
                             s'\<lparr>cache := AList.update cacheKey
                                   \<lparr>data = processedComic, timestamp = t1\<rparr> (cache s')\<rparr>)))))"

subsection \<open>getById\<close>

text \<open>
  The guard is \<open>id < 1\<close> alone. A cache hit returns the stored object itself, the entry with
  its \<open>data\<close> and \<open>timestamp\<close>. On a miss the \<open>try\<close> block fetches and throws for a 404 and
  for any other response that is not ok, and its \<open>catch\<close> throws again with the prefix
  \<open>Failed to getByID\<close>. The statement after the block reads \<open>response\<close>, which is declared
  with \<open>const\<close> inside the \<open>try\<close> block and is not bound outside it: evaluating it throws a
  \<open>ReferenceError\<close>, so the lines that decode, store and return the comic are never reached.
\<close>

definition comicUrl :: "jsnum \<Rightarrow> string" where
  "comicUrl n = baseUrl @ ''/'' @ ToString n @ ''/info.0.json''"

definition getById :: "network \<Rightarrow> jsnum \<Rightarrow> service \<Rightarrow> (js_error + cache_entry) \<times> service" where
  "getById net n s =
     (if js_lt n (Fin 1) then (Inl (Error ''Invalid comic ID''), s)
      else
        (let cachedKey = ''comic-'' @ ToString n in
         case map_of (cache s) cachedKey of
           Some cachedComic \<Rightarrow> (Inr cachedComic, s)
         | None \<Rightarrow>
            (let s' = s\<lparr>requests := requests s @ [comicUrl n]\<rparr>;
                 failed = (\<lambda>msg. (Inl (Error (''Failed to getByID '' @ msg)), s'))
             in case net (comicUrl n) of
                  Rejected e \<Rightarrow> failed (message e)
                | Resolved r \<Rightarrow>
                    if status r = 404 then failed ''Comic not found''
                    else if \<not> ok r then failed (http_error_message r)
                    else (Inl (ReferenceError ''response is not defined''), s'))))"

subsection \<open>getRandom\<close>

text \<open>
  \<open>await this.getLatest().id\<close> reads the property \<open>id\<close> of the promise that \<open>getLatest()\<close>
  returns, which is \<open>undefined\<close>; the promise itself is never awaited. The call still runs:
  its request is sent before \<open>getById\<close> starts, its effect on the service is kept and
  its result is dropped (a rejection of the dropped promise is handled nowhere). It touches
  only the key \<open>latest\<close>, which \<open>getById\<close> never reads, so the returned service is the one
  both calls leave behind, in whichever order their responses arrive.
  \<open>rnd\<close> is the value of \<open>Math.random()\<close>.
\<close>

definition getRandom ::
  "network \<Rightarrow> int \<Rightarrow> int \<Rightarrow> rat \<Rightarrow> service \<Rightarrow> (js_error + cache_entry) \<times> service" where
  "getRandom net t0 t1 rnd s =
     (let s1 = snd (getLatest net t0 t1 s);
          latestID = None;
          randomID = js_add (js_floor (js_mul (Fin rnd) (ToNumber latestID))) (Fin 1)
      in case getById net randomID s1 of
           (Inl e, s2) \<Rightarrow> (Inl (Error (''Failed to fetch random comic: '' @ message e)), s2)
         | (Inr v, s2) \<Rightarrow> (Inr v, s2))"

subsection \<open>search\<close>

record pagination =
  page :: int
  limit :: int
  totalPages :: jsnum

record search_result =
  query :: string
  results :: "comic list"
  total :: int
  pages :: pagination

text \<open>\<open>text.includes(q)\<close>: \<open>q\<close> occurs in \<open>text\<close> as a contiguous piece.\<close>

fun js_includes :: "string \<Rightarrow> string \<Rightarrow> bool" where
  "js_includes [] q = (q = [])"
| "js_includes (c # cs) q = (take (length q) (c # cs) = q \<or> js_includes cs q)"

text \<open>
  \<open>recentComics()\<close> starts with \<open>Arrays.from(this.cache)\<close>. No binding named \<open>Arrays\<close>
  exists, so the first statement throws and nothing after it runs.
\<close>

definition recentComics :: "service \<Rightarrow> js_error + comic list" where
  "recentComics s = Inl (ReferenceError ''Arrays is not defined'')"

text \<open>
  The matching loop. \<open>total\<close> is declared with \<open>const\<close>, so \<open>total++\<close> at the first match
  throws; a pool without a match leaves \<open>results\<close> empty and \<open>total\<close> at 0.
\<close>

fun match_loop :: "string \<Rightarrow> comic list \<Rightarrow> js_error + comic list" where
  "match_loop q [] = Inr []"
| "match_loop q (currentComic # rest) =
     (if js_includes (title currentComic) q \<or> js_includes (transcript currentComic) q
      then Inl (TypeError ''Assignment to constant variable.'')
      else match_loop q rest)"

text \<open>
  The length test throws inside a \<open>try\<close> whose \<open>catch\<close> throws again with the prefix
  \<open>Failed to search\<close>. After it, \<open>this.getLatest()\<close> is started and not awaited (as in
  \<open>getRandom\<close>), and \<open>recentComics()\<close> is called outside any \<open>try\<close>, on the cache as
  it is before the response to that request can arrive. The unused \<open>offset\<close> is left out.
  \<open>Math.ceil(0 / limit)\<close> is \<open>NaN\<close> for \<open>limit = 0\<close> and 0 otherwise. The query is a
  string and its length is the number of its characters; \<open>page\<close> and \<open>limit\<close> are given.
\<close>

definition search ::
  "network \<Rightarrow> int \<Rightarrow> int \<Rightarrow> string \<Rightarrow> int \<Rightarrow> int \<Rightarrow> service
     \<Rightarrow> (js_error + search_result) \<times> service" where
  "search net t0 t1 q pg lm s =
     (if length q < 1 \<or> length q > 100
      then (Inl (Error (''Failed to search '' @ ''Query must be between 1 and 100 characters'')), s)
      else
        (let s1 = snd (getLatest net t0 t1 s) in
         case recentComics s of
           Inl e \<Rightarrow> (Inl e, s1)
         | Inr recent \<Rightarrow>
             (case match_loop q recent of
                Inl e \<Rightarrow> (Inl e, s1)
              | Inr found \<Rightarrow>
                  (Inr \<lparr>query = q, results = found, total = 0,
                        pages = \<lparr>page = pg, limit = lm,
                                 totalPages = (if lm = 0 then NaN else Fin 0)\<rparr>\<rparr>, s1))))"

subsection \<open>A fresh process, and two providers to evaluate on\<close>

definition init :: service where
  "init = \<lparr>cache = [], requests = []\<rparr>"

definition sample_raw :: "int \<Rightarrow> raw_comic" where
  "sample_raw n = \<lparr>num = n, raw_title = ''Barrel'', raw_img = ''barrel.jpg'', raw_alt = ''boy'',
     raw_transcript = None, raw_year = ''2006'', raw_month = ''1'', raw_day = ''1'',
     raw_safe_title = ''Barrel''\<rparr>"

text \<open>A provider that answers every URL with 200 and comic \<open>n\<close>, and one that answers with a status and no body.\<close>

definition serves :: "int \<Rightarrow> network" where
  "serves n url = Resolved \<lparr>status = 200, statusText = ''OK'', json_body = Inr (sample_raw n)\<rparr>"

definition answers :: "int \<Rightarrow> string \<Rightarrow> network" where
  "answers st txt url =
     Resolved \<lparr>status = st, statusText = txt, json_body = Inl (Error ''invalid json'')\<rparr>"

text \<open>The service after a first \<open>getLatest()\<close> of a fresh process, stored at time 5.\<close>

definition after_first :: service where
  "after_first = snd (getLatest (serves 1) 0 5 init)"


subsection \<open>The states a process can be in\<close>

text \<open>Every key of the cache is \<open>latest\<close>.\<close>

definition only_latest :: "service \<Rightarrow> bool" where
  "only_latest s = (set (map fst (cache s)) \<subseteq> {''latest''})"

text \<open>A process starts with an empty cache and runs the four operations in any order.\<close>

inductive reachable :: "service \<Rightarrow> bool" where
  start: "reachable init"
| latest: "reachable s \<Longrightarrow> reachable (snd (getLatest net t0 t1 s))"
| by_id: "reachable s \<Longrightarrow> reachable (snd (getById net n s))"
| random: "reachable s \<Longrightarrow> reachable (snd (getRandom net t0 t1 rnd s))"
| searched: "reachable s \<Longrightarrow> reachable (snd (search net t0 t1 q pg lm s))"

section \<open>What each operation does to the cache\<close>

lemma getLatest_hit:
  assumes "map_of (cache s) ''latest'' = Some e" and "t - timestamp e < cacheTimeout"
  shows "getLatest net t t' s = (Inr (data e), s)"
  using assms by (simp add: getLatest_def fresh_def)

lemma getLatest_refetch:
  assumes "\<not> fresh t (map_of (cache s) ''latest'')"
    and "net latestUrl = Resolved r" and "ok r" and "json_body r = Inr raw"
  shows "getLatest net t t' s =
    (Inr (processComic raw),
     s\<lparr>requests := requests s @ [latestUrl],
       cache := AList.update ''latest'' \<lparr>data = processComic raw, timestamp = t'\<rparr> (cache s)\<rparr>)"
  using assms by (simp add: getLatest_def Let_def)

lemma getLatest_fetch_fails:
  assumes "\<not> fresh t (map_of (cache s) ''latest'')"
    and "(\<exists>e. net latestUrl = Rejected e) \<or> (\<exists>r. net latestUrl = Resolved r \<and> \<not> ok r)"
  shows "\<exists>err. getLatest net t t' s = (Inl err, s\<lparr>requests := requests s @ [latestUrl]\<rparr>)"
  using assms by (auto simp add: getLatest_def Let_def)

lemma getLatest_Inr_entry:
  assumes "getLatest net t t' s = (Inr c, s1)"
  shows "\<exists>e. map_of (cache s1) ''latest'' = Some e \<and> data e = c"
  using assms
  by (auto simp: getLatest_def Let_def fresh_def AList.update_conv'
      split: option.splits if_splits fetch_outcome.splits sum.splits)

lemma getLatest_cache_cases:
  "cache (snd (getLatest net t t' s)) = cache s \<or>
   (\<exists>c. fst (getLatest net t t' s) = Inr c \<and>
     cache (snd (getLatest net t t' s)) =
       AList.update ''latest'' \<lparr>data = c, timestamp = t'\<rparr> (cache s))"
  by (auto simp: getLatest_def Let_def
      split: option.splits if_splits fetch_outcome.splits sum.splits)

lemma getLatest_keys:
  "fst ` set (cache (snd (getLatest net t t' s))) = fst ` set (cache s) \<or>
   fst ` set (cache (snd (getLatest net t t' s))) = {''latest''} \<union> fst ` set (cache s)"
  using getLatest_cache_cases [of net t t' s] by (metis AList.dom_update)

lemma getById_cache: "cache (snd (getById net n s)) = cache s"
  by (auto simp: getById_def Let_def split: option.splits fetch_outcome.splits)

lemma getById_miss_fails:
  assumes "map_of (cache s) (''comic-'' @ ToString n) = None"
  shows "\<exists>e. fst (getById net n s) = Inl e"
  using assms by (auto simp: getById_def Let_def split: fetch_outcome.splits)

lemma randomID_is_NaN:
  "js_add (js_floor (js_mul (Fin rnd) (ToNumber None))) (Fin 1) = NaN"
  by simp

lemma getRandom_cache:
  "cache (snd (getRandom net t t' rnd s)) = cache (snd (getLatest net t t' s))"
proof -
  obtain r s2 where g: "getById net NaN (snd (getLatest net t t' s)) = (r, s2)"
    by (cases "getById net NaN (snd (getLatest net t t' s))")
  have "cache s2 = cache (snd (getLatest net t t' s))"
    using getById_cache [of net NaN "snd (getLatest net t t' s)"] g by simp
  then show ?thesis
    using g by (cases r) (simp_all add: getRandom_def Let_def)
qed

lemma search_cache:
  "cache (snd (search net t t' q pg lm s)) = cache s \<or>
   cache (snd (search net t t' q pg lm s)) = cache (snd (getLatest net t t' s))"
  by (simp add: search_def recentComics_def Let_def)

section \<open>No operation fills a per-comic slot\<close>

lemma only_latest_getLatest:
  assumes "only_latest s"
  shows "only_latest (snd (getLatest net t0 t1 s))"
  using assms getLatest_keys [of net t0 t1 s]
  unfolding only_latest_def set_map by blast

lemma reachable_only_latest:
  assumes "reachable s"
  shows "only_latest s"
  using assms
proof (induction rule: reachable.induct)
  case start
  show ?case by (simp add: only_latest_def init_def)
next
  case (latest s net t0 t1)
  then show ?case by (simp add: only_latest_getLatest)
next
  case (by_id s net n)
  then show ?case by (simp add: only_latest_def getById_cache)
next
  case (random s net t0 t1 rnd)
  then show ?case
    using only_latest_getLatest [of s net t0 t1]
    by (simp add: only_latest_def getRandom_cache)
next
  case (searched s net t0 t1 q pg lm)
  then show ?case
    using only_latest_getLatest [of s net t0 t1] search_cache [of net t0 t1 q pg lm s]
    unfolding only_latest_def by metis
qed

lemma only_latest_no_comic_key:
  assumes "only_latest s"
  shows "map_of (cache s) (''comic-'' @ x) = None"
proof -
  have "''comic-'' @ x \<noteq> ''latest''"
    by simp
  then have "''comic-'' @ x \<notin> fst ` set (cache s)"
    using assms unfolding only_latest_def set_map by blast
  then show ?thesis
    by (simp add: map_of_eq_None_iff)
qed

text \<open>In every state a process can reach, \<open>getById\<close> and \<open>getRandom\<close> fail; \<open>search\<close> fails in any state.\<close>

lemma getById_never_succeeds:
  assumes "reachable s"
  shows "\<exists>e. fst (getById net n s) = Inl e"
  using assms reachable_only_latest only_latest_no_comic_key getById_miss_fails by blast

lemma getRandom_never_succeeds:
  assumes "reachable s"
  shows "\<exists>e. fst (getRandom net t0 t1 rnd s) = Inl e"
proof -
  have "reachable (snd (getLatest net t0 t1 s))"
    using assms by (rule reachable.latest)
  from getById_never_succeeds [OF this]
  obtain e where "fst (getById net NaN (snd (getLatest net t0 t1 s))) = Inl e"
    by blast
  then show ?thesis
    by (cases "getById net NaN (snd (getLatest net t0 t1 s))") (simp add: getRandom_def Let_def)
qed

lemma search_never_succeeds:
  "\<exists>e. fst (search net t0 t1 q pg lm s) = Inl e"
  by (simp add: search_def recentComics_def Let_def)

lemma errorHandler_default:
  assumes "name err \<noteq> ''ValidationError''" and "name err \<noteq> ''ComicNotFound''"
    and "name err \<noteq> ''InvalidComicID''" and "\<not> truthy (isOperational err)"
  shows "errorHandler err =
    \<lparr>code = Number (Fin 500),
     json = [(''error'', String ''Internal Server Error''),
             (''message'', String ''Error handler not implemented'')]\<rparr>"
  using assms by (simp add: errorHandler_def)

lemma after_first_reachable: "reachable after_first"
  unfolding after_first_def by (rule reachable.latest) (rule reachable.start)

section \<open>The \<open>latest\<close> slot and its time to live\<close>

text \<open>
  Claim C1. After a call of \<open>getLatest()\<close> that succeeded, the cache holds the returned
  comic under \<open>latest\<close>. A later call made while less than five minutes have passed since
  that entry was stored returns the same comic and leaves the service as it is, so no
  request is made, whatever the provider would answer. A later call made when five minutes
  or more have passed requests the provider's latest item once more and, when the provider
  answers with a readable payload, returns that payload's comic and stores it.
\<close>

theorem getLatest_ttl:
  assumes first: "getLatest net1 t0 t1 s = (Inr c, s1)"
  shows "\<exists>e. map_of (cache s1) ''latest'' = Some e \<and> data e = c \<and>
     (\<forall>net2 t2 t3. t2 - timestamp e < cacheTimeout \<longrightarrow>
        getLatest net2 t2 t3 s1 = (Inr c, s1)) \<and>
     (\<forall>net2 t2 t3 r raw.
        cacheTimeout \<le> t2 - timestamp e \<and> net2 latestUrl = Resolved r \<and> ok r \<and>
        json_body r = Inr raw \<longrightarrow>
        getLatest net2 t2 t3 s1 =
          (Inr (processComic raw),
           s1\<lparr>requests := requests s1 @ [latestUrl],
              cache := AList.update ''latest''
                \<lparr>data = processComic raw, timestamp = t3\<rparr> (cache s1)\<rparr>))"
proof -
  from getLatest_Inr_entry [OF first]
  obtain e where e: "map_of (cache s1) ''latest'' = Some e" and d: "data e = c"
    by blast
  have hit: "getLatest net2 t2 t3 s1 = (Inr c, s1)"
    if "t2 - timestamp e < cacheTimeout" for net2 t2 t3
    using getLatest_hit [OF e that] d by simp
  have stale: "getLatest net2 t2 t3 s1 =
      (Inr (processComic raw),
       s1\<lparr>requests := requests s1 @ [latestUrl],
          cache := AList.update ''latest''
            \<lparr>data = processComic raw, timestamp = t3\<rparr> (cache s1)\<rparr>)"
    if "cacheTimeout \<le> t2 - timestamp e" "net2 latestUrl = Resolved r" "ok r"
      "json_body r = Inr raw" for net2 t2 t3 r raw
  proof -
    have "\<not> fresh t2 (map_of (cache s1) ''latest'')"
      using e that(1) by (simp add: fresh_def)
    then show ?thesis
      using that(2-4) by (rule getLatest_refetch)
  qed
  show ?thesis
    using e d hit stale by blast
qed

text \<open>
  A fresh process fetches comic 1 and stores it at time 5. A call at 300004 (one
  millisecond inside the window) returns comic 1 although the provider now serves
  comic 2; a call at 300005 fetches and returns comic 2.
\<close>

theorem getLatest_ttl_witness:
  "getLatest (serves 1) 0 5 init = (Inr (processComic (sample_raw 1)), after_first) \<and>
   getLatest (serves 2) 300004 300009 after_first =
     (Inr (processComic (sample_raw 1)), after_first) \<and>
   getLatest (serves 2) 300005 300009 after_first =
     (Inr (processComic (sample_raw 2)),
      \<lparr>cache = [(''latest'', \<lparr>data = processComic (sample_raw 2), timestamp = 300009\<rparr>)],
       requests = [latestUrl, latestUrl]\<rparr>)"
proof -
  have first: "getLatest (serves 1) 0 5 init = (Inr (processComic (sample_raw 1)), after_first)"
    by (simp add: after_first_def getLatest_def Let_def init_def fresh_def serves_def ok_def)
  have stored: "cache after_first =
      [(''latest'', \<lparr>data = processComic (sample_raw 1), timestamp = 5\<rparr>)]"
    by (simp add: after_first_def getLatest_def Let_def init_def fresh_def serves_def ok_def)
  have reqs: "requests after_first = [latestUrl]"
    by (simp add: after_first_def getLatest_def Let_def init_def fresh_def serves_def ok_def)
  from getLatest_ttl [OF first]
  obtain e where e: "map_of (cache after_first) ''latest'' = Some e"
    and hit: "\<And>net2 t2 t3. t2 - timestamp e < cacheTimeout \<Longrightarrow>
        getLatest net2 t2 t3 after_first = (Inr (processComic (sample_raw 1)), after_first)"
    and stale: "\<And>net2 t2 t3 r raw.
        cacheTimeout \<le> t2 - timestamp e \<Longrightarrow> net2 latestUrl = Resolved r \<Longrightarrow> ok r \<Longrightarrow>
        json_body r = Inr raw \<Longrightarrow>
        getLatest net2 t2 t3 after_first =
          (Inr (processComic raw),
           after_first\<lparr>requests := requests after_first @ [latestUrl],
              cache := AList.update ''latest''
                \<lparr>data = processComic raw, timestamp = t3\<rparr> (cache after_first)\<rparr>)"
    by blast
  have ts: "timestamp e = 5"
    using e stored by auto
  have second: "getLatest (serves 2) 300004 300009 after_first =
      (Inr (processComic (sample_raw 1)), after_first)"
    by (rule hit) (simp add: ts cacheTimeout_def)
  have third: "getLatest (serves 2) 300005 300009 after_first =
      (Inr (processComic (sample_raw 2)),
       after_first\<lparr>requests := requests after_first @ [latestUrl],
          cache := AList.update ''latest''
            \<lparr>data = processComic (sample_raw 2), timestamp = 300009\<rparr> (cache after_first)\<rparr>)"
    by (rule stale [where r = "\<lparr>status = 200, statusText = ''OK'', json_body = Inr (sample_raw 2)\<rparr>"])
       (simp_all add: ts cacheTimeout_def serves_def ok_def)
  show ?thesis
    using first second third stored reqs by simp
qed

text \<open>
  Claim C10. When \<open>getLatest()\<close> has no fresh entry and its request fails, because
  \<open>fetch\<close> rejects or because the response is not ok, the call fails and the cache is
  exactly what it was: nothing is added, and a stale \<open>latest\<close> entry keeps its data and
  its timestamp. The request itself is recorded.
\<close>

theorem getLatest_failure_keeps_cache:
  assumes "\<not> fresh t0 (map_of (cache s) ''latest'')"
    and "(\<exists>e. net latestUrl = Rejected e) \<or> (\<exists>r. net latestUrl = Resolved r \<and> \<not> ok r)"
  shows "\<exists>err. fst (getLatest net t0 t1 s) = Inl err \<and>
           cache (snd (getLatest net t0 t1 s)) = cache s \<and>
           requests (snd (getLatest net t0 t1 s)) = requests s @ [latestUrl]"
proof -
  from getLatest_fetch_fails [of t0 s net t1] assms
  obtain err where "getLatest net t0 t1 s = (Inl err, s\<lparr>requests := requests s @ [latestUrl]\<rparr>)"
    by blast
  then show ?thesis by simp
qed

text \<open>
  The entry stored at time 5 is stale at time 400000; the provider answers 503, and
  the entry is still there with timestamp 5.
\<close>

theorem getLatest_failure_keeps_cache_witness:
  "\<not> fresh 400000 (map_of (cache after_first) ''latest'') \<and>
   answers 503 ''Service Unavailable'' latestUrl =
     Resolved \<lparr>status = 503, statusText = ''Service Unavailable'',
               json_body = Inl (Error ''invalid json'')\<rparr> \<and>
   \<not> ok \<lparr>status = 503, statusText = ''Service Unavailable'',
           json_body = Inl (Error ''invalid json'')\<rparr> \<and>
   (\<exists>err. fst (getLatest (answers 503 ''Service Unavailable'') 400000 400001 after_first) =
      Inl err) \<and>
   cache (snd (getLatest (answers 503 ''Service Unavailable'') 400000 400001 after_first)) =
     [(''latest'', \<lparr>data = processComic (sample_raw 1), timestamp = 5\<rparr>)]"
proof -
  have stored: "cache after_first =
      [(''latest'', \<lparr>data = processComic (sample_raw 1), timestamp = 5\<rparr>)]"
    by (simp add: after_first_def getLatest_def Let_def init_def fresh_def serves_def ok_def)
  have stale: "\<not> fresh 400000 (map_of (cache after_first) ''latest'')"
    by (simp add: stored fresh_def cacheTimeout_def)
  have resp: "answers 503 ''Service Unavailable'' latestUrl =
     Resolved \<lparr>status = 503, statusText = ''Service Unavailable'',
               json_body = Inl (Error ''invalid json'')\<rparr>"
    by (simp add: answers_def)
  have bad: "\<not> ok \<lparr>status = 503, statusText = ''Service Unavailable'',
           json_body = Inl (Error ''invalid json'')\<rparr>"
    by (simp add: ok_def)
  have "(\<exists>e. answers 503 ''Service Unavailable'' latestUrl = Rejected e) \<or>
        (\<exists>r. answers 503 ''Service Unavailable'' latestUrl = Resolved r \<and> \<not> ok r)"
    using resp bad by blast
  with stale getLatest_failure_keeps_cache
    [of 400000 after_first "answers 503 ''Service Unavailable''" 400001]
  have "\<exists>err. fst (getLatest (answers 503 ''Service Unavailable'') 400000 400001
            after_first) = Inl err \<and>
          cache (snd (getLatest (answers 503 ''Service Unavailable'') 400000 400001
            after_first)) = cache after_first"
    by blast
  then show ?thesis
    using stale resp bad stored by auto
qed

section \<open>Entries are never removed\<close>

text \<open>
  Claim C8. A key that is in the cache before \<open>getLatest\<close>, \<open>getById\<close>, \<open>getRandom\<close> or
  \<open>search\<close> is in the cache afterwards. The cache changes in one way only: a
  \<open>getLatest\<close> that succeeded by a request writes the comic it returns under \<open>latest\<close>.
  \<open>getById\<close> leaves the cache as it is, and \<open>getRandom\<close> and \<open>search\<close> change it only
  through the \<open>getLatest\<close> they start.
\<close>

theorem no_operation_removes_an_entry:
  assumes "k \<in> fst ` set (cache s)"
  shows "k \<in> fst ` set (cache (snd (getLatest net t0 t1 s))) \<and>
         k \<in> fst ` set (cache (snd (getById net n s))) \<and>
         k \<in> fst ` set (cache (snd (getRandom net t0 t1 rnd s))) \<and>
         k \<in> fst ` set (cache (snd (search net t0 t1 q pg lm s))) \<and>
         (cache (snd (getLatest net t0 t1 s)) = cache s \<or>
          (\<exists>c. fst (getLatest net t0 t1 s) = Inr c \<and>
             cache (snd (getLatest net t0 t1 s)) =
               AList.update ''latest'' \<lparr>data = c, timestamp = t1\<rparr> (cache s))) \<and>
         cache (snd (getById net n s)) = cache s \<and>
         cache (snd (getRandom net t0 t1 rnd s)) = cache (snd (getLatest net t0 t1 s)) \<and>
         (cache (snd (search net t0 t1 q pg lm s)) = cache s \<or>
          cache (snd (search net t0 t1 q pg lm s)) = cache (snd (getLatest net t0 t1 s)))"
proof -
  have L: "k \<in> fst ` set (cache (snd (getLatest net t0 t1 s)))"
    using getLatest_keys [of net t0 t1 s] assms by blast
  have S: "cache (snd (search net t0 t1 q pg lm s)) = cache s \<or>
      cache (snd (search net t0 t1 q pg lm s)) = cache (snd (getLatest net t0 t1 s))"
    by (rule search_cache)
  then have S': "k \<in> fst ` set (cache (snd (search net t0 t1 q pg lm s)))"
    using L assms by metis
  show ?thesis
    using L S S' assms getLatest_cache_cases [of net t0 t1 s]
    by (simp add: getById_cache getRandom_cache)
qed

text \<open>The entry a first \<open>getLatest()\<close> stored survives each of the four operations run after it.\<close>

theorem no_operation_removes_an_entry_witness:
  "''latest'' \<in> fst ` set (cache after_first) \<and>
   ''latest'' \<in> fst ` set (cache (snd (getLatest (serves 2) 400000 400001 after_first))) \<and>
   ''latest'' \<in> fst ` set (cache (snd (getById (serves 2) (Fin 7) after_first))) \<and>
   ''latest'' \<in> fst ` set (cache (snd (getRandom (serves 2) 400000 400001 (1 / 2) after_first))) \<and>
   ''latest'' \<in> fst ` set (cache (snd (search (serves 2) 400000 400001 ''xkcd'' 1 10 after_first)))"
proof -
  have k: "''latest'' \<in> fst ` set (cache after_first)"
    by (simp add: after_first_def getLatest_def Let_def init_def fresh_def serves_def ok_def)
  from no_operation_removes_an_entry
    [OF k, of "serves 2" 400000 400001 "Fin 7" "1 / 2" "''xkcd''" 1 10]
  show ?thesis
    using k by blast
qed

section \<open>Query validation in \<open>search\<close>\<close>

text \<open>
  Claim C6, as the service has it. A query of length 0 or of length above 100 makes
  \<open>search\<close> fail with an \<open>Error\<close> whose name is \<open>Error\<close>, not \<open>ValidationError\<close>, and whose
  message is \<open>Failed to search Query must be between 1 and 100 characters\<close>; the service is returned
  as it was, for every cache and every provider, so the failure comes before the cache is
  read and before any request.
\<close>

theorem search_rejects_bad_length:
  assumes "length q < 1 \<or> 100 < length q"
  shows "search net t0 t1 q pg lm s =
     (Inl (Error ''Failed to search Query must be between 1 and 100 characters''), s) \<and>
     name (Error ''Failed to search Query must be between 1 and 100 characters'') = ''Error'' \<and>
     name (Error ''Failed to search Query must be between 1 and 100 characters'') \<noteq>
       ''ValidationError''"
  using assms by (auto simp: search_def Error_def)

text \<open>The empty query and a query of 101 characters.\<close>

theorem search_rejects_bad_length_witness:
  "(length '''' < 1 \<or> 100 < length '''') \<and>
   search (serves 1) 0 1 '''' 1 10 after_first =
     (Inl (Error ''Failed to search Query must be between 1 and 100 characters''), after_first) \<and>
   (length (replicate 101 CHR ''a'') < 1 \<or> 100 < length (replicate 101 CHR ''a'')) \<and>
   search (serves 1) 0 1 (replicate 101 CHR ''a'') 1 10 after_first =
     (Inl (Error ''Failed to search Query must be between 1 and 100 characters''), after_first)"
  using search_rejects_bad_length [of "''''" "serves 1" 0 1 1 10 after_first]
    search_rejects_bad_length [of "replicate 101 CHR ''a''" "serves 1" 0 1 1 10 after_first]
  by simp

text \<open>
  The failure for the empty query is not a \<open>ValidationError\<close>: its name is \<open>Error\<close>, and the
  error handler answers it with status 500 and the default body, not with 400 and
  \<open>Validation Error\<close>.
\<close>

theorem search_length_failure_is_not_a_ValidationError:
  "search (serves 1) 0 1 '''' 1 10 init =
     (Inl (Error ''Failed to search Query must be between 1 and 100 characters''), init) \<and>
   name (Error ''Failed to search Query must be between 1 and 100 characters'') \<noteq>
     ''ValidationError'' \<and>
   errorHandler (Error ''Failed to search Query must be between 1 and 100 characters'') =
     \<lparr>code = Number (Fin 500),
      json = [(''error'', String ''Internal Server Error''),
              (''message'', String ''Error handler not implemented'')]\<rparr>"
  by code_simp

section \<open>Where the service stops short\<close>

text \<open>
  Claim C2. The guard of \<open>getById\<close> tests \<open>id < 1\<close> only. For 1.5 and for \<open>NaN\<close> the test
  is false, and a request for that identifier is sent. For 0 the call fails without a
  request, with an \<open>Error\<close> named \<open>Error\<close> whose message is \<open>Invalid comic ID\<close>; the error
  handler, which recognises the name \<open>InvalidComicID\<close>, answers it with status 500.
\<close>

theorem getById_guard_tests_only_below_one:
  "getById (serves 1) (Fin (3 / 2)) init =
     (Inl (ReferenceError ''response is not defined''),
      \<lparr>cache = [], requests = [''https://xkcd.com/1.5/info.0.json'']\<rparr>) \<and>
   getById (serves 1) NaN init =
     (Inl (ReferenceError ''response is not defined''),
      \<lparr>cache = [], requests = [''https://xkcd.com/NaN/info.0.json'']\<rparr>) \<and>
   getById (serves 1) (Fin 0) init = (Inl (Error ''Invalid comic ID''), init) \<and>
   name (Error ''Invalid comic ID'') = ''Error'' \<and>
   errorHandler (Error ''Invalid comic ID'') =
     \<lparr>code = Number (Fin 500),
      json = [(''error'', String ''Internal Server Error''),
              (''message'', String ''Error handler not implemented'')]\<rparr>"
  by code_simp



text \<open>
  The premise is not met by a process left to itself. With a provider that answers 200
  and a readable payload, \<open>getById(1)\<close> on a fresh process sends its request and fails
  with the \<open>ReferenceError\<close>, storing nothing; a second \<open>getById(1)\<close> sends the same
  request again and fails in the same way.
\<close>

lemma getById_fetches_again_on_every_call:
  "getById (serves 1) (Fin 1) init =
     (Inl (ReferenceError ''response is not defined''),
      \<lparr>cache = [], requests = [''https://xkcd.com/1/info.0.json'']\<rparr>) \<and>
   getById (serves 1) (Fin 1) \<lparr>cache = [], requests = [''https://xkcd.com/1/info.0.json'']\<rparr> =
     (Inl (ReferenceError ''response is not defined''),
      \<lparr>cache = [],
       requests = [''https://xkcd.com/1/info.0.json'', ''https://xkcd.com/1/info.0.json'']\<rparr>)"
  by code_simp

text \<open>
  Claim C4. When the provider answers 404, \<open>getById(1)\<close> fails with an \<open>Error\<close> named
  \<open>Error\<close> whose message is \<open>Failed to getByID Comic not found\<close>. The error handler, which
  recognises the name \<open>ComicNotFound\<close>, answers it with status 500 and the default body,
  as it answers the failure for a provider status of 500.
\<close>

theorem getById_404_reaches_the_default_branch:
  "getById (answers 404 ''Not Found'') (Fin 1) init =
     (Inl (Error ''Failed to getByID Comic not found''),
      \<lparr>cache = [], requests = [''https://xkcd.com/1/info.0.json'']\<rparr>) \<and>
   name (Error ''Failed to getByID Comic not found'') = ''Error'' \<and>
   errorHandler (Error ''Failed to getByID Comic not found'') =
     \<lparr>code = Number (Fin 500),
      json = [(''error'', String ''Internal Server Error''),
              (''message'', String ''Error handler not implemented'')]\<rparr> \<and>
   getById (answers 500 ''Internal Server Error'') (Fin 1) init =
     (Inl (Error ''Failed to getByID HTTP 500: Internal Server Error''),
      \<lparr>cache = [], requests = [''https://xkcd.com/1/info.0.json'']\<rparr>) \<and>
   errorHandler (Error ''Failed to getByID HTTP 500: Internal Server Error'') =
     \<lparr>code = Number (Fin 500),
      json = [(''error'', String ''Internal Server Error''),
              (''message'', String ''Error handler not implemented'')]\<rparr>"
  by code_simp

text \<open>
  Claim C5. The cache holds comic 1 as the latest, stored at time 5 and fresh at time
  100. \<open>getRandom()\<close> with \<open>Math.random() = 0.5\<close> does not read that identifier: it asks
  the provider for the comic \<open>NaN\<close> and fails, although the provider answers 200.
\<close>

theorem getRandom_asks_for_comic_NaN:
  "map_of (cache after_first) ''latest'' =
     Some \<lparr>data = processComic (sample_raw 1), timestamp = 5\<rparr> \<and>
   comic_id (processComic (sample_raw 1)) = 1 \<and>
   getRandom (serves 1) 100 101 (1 / 2) after_first =
     (Inl (Error ''Failed to fetch random comic: response is not defined''),
      \<lparr>cache = [(''latest'', \<lparr>data = processComic (sample_raw 1), timestamp = 5\<rparr>)],
       requests = [''https://xkcd.com/info.0.json'', ''https://xkcd.com/NaN/info.0.json'']\<rparr>)"
  by code_simp

text \<open>
  Claim C7. On a fresh process \<open>search("xkcd", 2, 5)\<close> does not return a result: it
  fails with the \<open>ReferenceError\<close> of \<open>recentComics()\<close>. The \<open>getLatest()\<close> it started has
  sent one request and stored the provider's answer.
\<close>

theorem search_xkcd_on_empty_cache_throws:
  "search (serves 1) 0 1 ''xkcd'' 2 5 init =
     (Inl (ReferenceError ''Arrays is not defined''),
      \<lparr>cache = [(''latest'', \<lparr>data = processComic (sample_raw 1), timestamp = 1\<rparr>)],
       requests = [''https://xkcd.com/info.0.json'']\<rparr>)"
  by code_simp

text \<open>
  Claim C9. For a plain \<open>Error\<close>, which is none of the three named failures and is not
  operational, the error handler answers with status 500 and the error text
  \<open>Internal Server Error\<close>; the message it sends is \<open>Error handler not implemented\<close>.
\<close>

theorem errorHandler_default_message:
  "errorHandler (Error ''connect ECONNREFUSED 10.0.0.5:5432'') =
     \<lparr>code = Number (Fin 500),
      json = [(''error'', String ''Internal Server Error''),
              (''message'', String ''Error handler not implemented'')]\<rparr>"
  by code_simp

end
